theory Spec2Isabelle
  imports Main "HOL-Library.Word"
begin

section \<open>Data model of libcontainerd/client.go\<close>

text \<open>
  The client talks to three collaborators that are not part of client.go: the containerd
  daemon (\<open>c.remote.apiClient\<close>), the Backend (\<open>c.backend\<close>) and the fifo layer behind
  \<open>container.openFifos\<close>. Their answers are inputs of the model (the record \<open>world\<close>);
  every call the client makes to them, every registry mutation, every lock operation and
  every log line is appended, in program order, to the field \<open>trace\<close> of the client state.
\<close>

type_synonym uint32 = "32 word"

text \<open>A \<open>chan struct{}\<close> and an \<open>IOPipe\<close> are opaque handles.\<close>

type_synonym chan = nat
type_synonym IOPipe = nat

text \<open>
  Go \<open>error\<close> values. The first four are the ones client.go builds with \<open>fmt.Errorf\<close>;
  \<open>Upstream\<close> stands for an error value handed back by a collaborator.
\<close>

datatype error =
    AlreadyActive string
  | NoActiveProcess string
  | InvalidStateResponse
  | InvalidContainer string
  | Upstream string

text \<open>\<open>containerd.Event\<close>, \<open>containerd.Container\<close> (the daemon's wire types) and \<open>StateInfo\<close>.\<close>

record Event =
  Event_Id :: string
  Event_Type :: string
  Event_Status :: uint32
  Event_Pid :: string

record containerd_Container =
  Id :: string
  BundlePath :: string
  Status :: string
  Pids :: "uint32 list"

record StateInfo =
  State :: string
  Pid :: uint32
  ExitCode :: uint32

text \<open>
  The in-process \<open>container\<close> embeds a \<open>process\<close> (Go struct embedding, here record
  extension). The field \<open>id\<close> of the source is \<open>id_field\<close>. The pause monitor is the queue
  of (expected state, completion channel) pairs.
\<close>

record process =
  id_field :: string
  dir :: string
  processID :: string

record container = process +
  systemPid :: uint32
  processes :: "string \<rightharpoonup> process"
  pauseMonitor :: "(string \<times> chan) list"

text \<open>
  A \<open>CreateOption\<close> is its \<open>Apply\<close> method: it receives the container by pointer, so it
  may change it, and returns an error or nil.
\<close>

type_synonym CreateOption = "container \<Rightarrow> (error + unit) \<times> container"

datatype level = DebugLevel | WarnLevel | ErrorLevel

datatype logmsg =
    RestoreContainer string string
  | ErrorRestoring string error
  | UnexpectedBacklogEvent Event
  | OptionError error
  | UnlockNonExisting string

datatype action =
    Lock string
  | Unlock string
  | RpcState string
  | RpcUpdateContainer string string string
  | OpenFifos string
  | AttachStreams string IOPipe
  | StateChanged string StateInfo
  | RegistryPut string
  | RegistryDelete string
  | MonitorAppend string string chan
  | Receive chan
  | Log level logmsg

text \<open>
  The \<open>client\<close> struct: the per-ID lock table (\<open>True\<close> is a held mutex), the registry
  \<open>containers\<close>, the backlog \<open>c.remote.pastEvents\<close>, and the trace of effects. The two
  table mutexes (\<open>c.Mutex\<close>, \<open>c.mapMutex\<close>) guard single map accesses and are not modelled.
\<close>

record client =
  containerMutexes :: "string \<rightharpoonup> bool"
  containers :: "string \<rightharpoonup> container"
  pastEvents :: "string \<rightharpoonup> Event"
  trace :: "action list"

text \<open>
  The collaborators. \<open>systemPid_of\<close> is the package function \<open>systemPid(cont)\<close>, which
  is declared outside client.go; \<open>signalled ch\<close> tells whether the event-dispatch path
  ever releases the waiter channel \<open>ch\<close>.
\<close>

record world =
  api_State :: "string \<Rightarrow> error + containerd_Container list"
  api_UpdateContainer :: "string \<Rightarrow> string \<Rightarrow> string \<Rightarrow> error + unit"
  backend_AttachStreams :: "string \<Rightarrow> IOPipe \<Rightarrow> error + unit"
  backend_StateChanged :: "string \<Rightarrow> StateInfo \<Rightarrow> error + unit"
  openFifos :: "container \<Rightarrow> error + IOPipe"
  systemPid_of :: "containerd_Container \<Rightarrow> uint32"
  signalled :: "chan \<Rightarrow> bool"

section \<open>Constants declared outside client.go\<close>

text \<open>
  Modelled from the spec: the state-name constants and the reserved init process ID are
  declared in other files of the package; the values follow the spec's event type names
  (pause, resume, exit, restore) and its "init" sentinel.
\<close>

definition StatePause :: string where
  "StatePause = ''pause''"

definition StateResume :: string where
  "StateResume = ''resume''"

definition StateExit :: string where
  "StateExit = ''exit''"

definition StateRestore :: string where
  "StateRestore = ''restore''"

definition initProcessID :: string where
  "initProcessID = ''init''"

text \<open>
  \<open>filepath.Base\<close> of the Go standard library on a slash-separated system: the last
  element of the path, trailing slashes removed first; \<open>.\<close> for the empty path and \<open>/\<close>
  for a path of slashes only.
\<close>

definition filepath_Base :: "string \<Rightarrow> string" where
  "filepath_Base path =
     (if path = [] then ''.''
      else let p = rev (dropWhile (\<lambda>ch. ch = CHR ''/'') (rev path));
               b = rev (takeWhile (\<lambda>ch. ch \<noteq> CHR ''/'') (rev p))
           in if b = [] then ''/'' else b)"

section \<open>Locks and the registry\<close>

definition emit :: "action \<Rightarrow> client \<Rightarrow> client" where
  "emit a c = c\<lparr>trace := trace c @ [a]\<rparr>"

text \<open>
  \<open>lock\<close> creates the mutex of the ID on first use and acquires it. The model follows one
  call from the moment it holds the lock; waiting for another goroutine to release it is
  not represented.
\<close>

definition lock :: "string \<Rightarrow> client \<Rightarrow> client" where
  "lock cid c = emit (Lock cid) (c\<lparr>containerMutexes := (containerMutexes c)(cid \<mapsto> True)\<rparr>)"

definition unlock :: "string \<Rightarrow> client \<Rightarrow> client" where
  "unlock cid c =
     (case containerMutexes c cid of
        Some held \<Rightarrow> emit (Unlock cid) (c\<lparr>containerMutexes := (containerMutexes c)(cid \<mapsto> False)\<rparr>)
      | None \<Rightarrow> emit (Log WarnLevel (UnlockNonExisting cid)) c)"

definition getContainer :: "client \<Rightarrow> string \<Rightarrow> error + container" where
  "getContainer c cid =
     (case containers c cid of
        None \<Rightarrow> Inl (InvalidContainer cid)
      | Some k \<Rightarrow> Inr k)"

definition appendContainer :: "container \<Rightarrow> client \<Rightarrow> client" where
  "appendContainer cont c =
     emit (RegistryPut (id_field cont)) (c\<lparr>containers := (containers c)(id_field cont \<mapsto> cont)\<rparr>)"

definition deleteContainer :: "string \<Rightarrow> client \<Rightarrow> client" where
  "deleteContainer cid c =
     emit (RegistryDelete cid) (c\<lparr>containers := (containers c)(cid := None)\<rparr>)"

section \<open>Daemon lookups\<close>

text \<open>The loop of \<open>getContainerdContainer\<close> over \<open>resp.Containers\<close>: the first match wins.\<close>

fun find_container :: "string \<Rightarrow> containerd_Container list \<Rightarrow> error + containerd_Container" where
  "find_container cid [] = Inl InvalidStateResponse"
| "find_container cid (cont # conts) =
     (if Id cont = cid then Inr cont else find_container cid conts)"

definition getContainerdContainer ::
  "world \<Rightarrow> string \<Rightarrow> client \<Rightarrow> (error + containerd_Container) \<times> client" where
  "getContainerdContainer w cid c =
     (case api_State w cid of
        Inl e \<Rightarrow> (Inl e, emit (RpcState cid) c)
      | Inr conts \<Rightarrow> (find_container cid conts, emit (RpcState cid) c))"

text \<open>
  The loop of \<open>GetPidsForContainer\<close>: \<open>pids\<close> is allocated with the length of \<open>cont.Pids\<close>
  and filled by index. \<open>int(p)\<close> on a \<open>uint32\<close> is the conversion to the platform's \<open>int\<close>,
  a word of \<open>'w\<close> bits.
\<close>

fun fill_pids :: "nat \<Rightarrow> uint32 list \<Rightarrow> 'w::len word list \<Rightarrow> 'w word list" where
  "fill_pids i [] pids = pids"
| "fill_pids i (p # ps) pids = fill_pids (Suc i) ps (pids[i := ucast p])"

definition GetPidsForContainer ::
  "world \<Rightarrow> string \<Rightarrow> client \<Rightarrow> (error + 'w::len word list) \<times> client" where
  "GetPidsForContainer w cid c =
     (case getContainerdContainer w cid c of
        (Inl e, c') \<Rightarrow> (Inl e, c')
      | (Inr cont, c') \<Rightarrow>
          (Inr (fill_pids 0 (Pids cont) (replicate (length (Pids cont)) 0)), c'))"

section \<open>Container construction\<close>

text \<open>
  The loop of \<open>newContainer\<close> over the options: each \<open>Apply\<close> runs on the container, and
  an error it returns is logged and otherwise ignored. The errors come back in order.
\<close>

fun apply_options :: "CreateOption list \<Rightarrow> container \<Rightarrow> container \<times> error list" where
  "apply_options [] k = (k, [])"
| "apply_options (opt # opts) k =
     (case opt k of
        (Inl e, k') \<Rightarrow> (case apply_options opts k' of (k'', es) \<Rightarrow> (k'', e # es))
      | (Inr u, k') \<Rightarrow> apply_options opts k')"

definition newContainer :: "string \<Rightarrow> CreateOption list \<Rightarrow> client \<Rightarrow> container \<times> client" where
  "newContainer d options c =
     (case apply_options options
             \<lparr>id_field = filepath_Base d, dir = d, processID = initProcessID,
              systemPid = 0, processes = Map.empty, pauseMonitor = []\<rparr> of
        (k, es) \<Rightarrow> (k, c\<lparr>trace := trace c @ map (\<lambda>e. Log ErrorLevel (OptionError e)) es\<rparr>))"

section \<open>Restore\<close>

text \<open>
  \<open>restore_body\<close> is the part of \<open>client.restore\<close> after the two \<open>defer\<close> statements: from
  \<open>newContainer\<close> to the final \<open>return\<close>. Its result is the value of the named result \<open>err\<close>
  when the deferred functions start.
\<close>

definition restore_body ::
  "world \<Rightarrow> containerd_Container \<Rightarrow> CreateOption list \<Rightarrow> client \<Rightarrow> (error + unit) \<times> client" where
  "restore_body w cont options c =
     (case newContainer (BundlePath cont) options c of
        (k0, c1) \<Rightarrow>
          (let k = k0\<lparr>systemPid := systemPid_of w cont\<rparr>;
               c2 = emit (OpenFifos (id_field k)) c1
           in (case openFifos w k of
                 Inl e \<Rightarrow> (Inl e, c2)
               | Inr iopipe \<Rightarrow>
                   (let c3 = emit (AttachStreams (Id cont) iopipe) c2
                    in (case backend_AttachStreams w (Id cont) iopipe of
                          Inl e \<Rightarrow> (Inl e, c3)
                        | Inr u \<Rightarrow>
                            (let c4 = appendContainer k c3;
                                 info = \<lparr>State = StateRestore, Pid = systemPid k, ExitCode = 0\<rparr>;
                                 c5 = emit (StateChanged (Id cont) info) c4
                             in (case backend_StateChanged w (Id cont) info of
                                   Inl e \<Rightarrow> (Inl e, c5)
                                 | Inr u \<Rightarrow>
                                     (case pastEvents c5 (Id cont) of
                                        None \<Rightarrow> (Inr (), c5)
                                      | Some event \<Rightarrow>
                                          (if Event_Type event = StatePause
                                              \<or> Event_Type event = StateResume
                                           then (let info' = \<lparr>State = Event_Type event,
                                                              Pid = systemPid k, ExitCode = 0\<rparr>
                                                 in (backend_StateChanged w (Id cont) info',
                                                     emit (StateChanged (Id cont) info') c5))
                                           else (Inr (),
                                                 emit (Log WarnLevel (UnexpectedBacklogEvent event))
                                                   c5))))))))))"

text \<open>
  \<open>client.restore\<close>: lock, debug log, the already-active guard (which returns before the
  cleanup is deferred), the body, then the deferred functions in reverse order: the
  compensating \<open>deleteContainer(cont.Id)\<close> when \<open>err\<close> is not nil, and the unlock.
\<close>

definition restore ::
  "world \<Rightarrow> containerd_Container \<Rightarrow> CreateOption list \<Rightarrow> client \<Rightarrow> (error + unit) \<times> client" where
  "restore w cont options c =
     (let c1 = emit (Log DebugLevel (RestoreContainer (Id cont) (Status cont))) (lock (Id cont) c)
      in (case getContainer c1 (Id cont) of
            Inr k \<Rightarrow> (Inl (AlreadyActive (Id cont)), unlock (Id cont) c1)
          | Inl e \<Rightarrow>
              (case restore_body w cont options c1 of
                 (Inl err, c2) \<Rightarrow> (Inl err, unlock (Id cont) (deleteContainer (Id cont) c2))
               | (Inr u, c2) \<Rightarrow> (Inr u, unlock (Id cont) c2))))"

text \<open>
  The public \<open>Restore\<close>. When the lookup succeeds the result of \<open>restore\<close> is logged and
  nil is returned; otherwise the backlog entry of the ID is read and deleted and the
  result of the Backend's Exit notification is returned.
\<close>

definition Restore ::
  "world \<Rightarrow> string \<Rightarrow> CreateOption list \<Rightarrow> client \<Rightarrow> (error + unit) \<times> client" where
  "Restore w cid options c =
     (case getContainerdContainer w cid c of
        (Inr cont, c1) \<Rightarrow>
          (case restore w cont options c1 of
             (Inl err, c2) \<Rightarrow> (Inr (), emit (Log ErrorLevel (ErrorRestoring cid err)) c2)
           | (Inr u, c2) \<Rightarrow> (Inr (), c2))
      | (Inl e, c1) \<Rightarrow>
          (let c2 = lock cid c1;
               (exitCode, c3) =
                 (case pastEvents c2 cid of
                    Some event \<Rightarrow>
                      (Event_Status event, c2\<lparr>pastEvents := (pastEvents c2)(cid := None)\<rparr>)
                  | None \<Rightarrow> (0, c2));
               info = \<lparr>State = StateExit, Pid = 0, ExitCode = exitCode\<rparr>
           in (backend_StateChanged w cid info, unlock cid (emit (StateChanged cid info) c3))))"

section \<open>Pause and Resume\<close>

text \<open>
  Modelled from the spec: \<open>pauseMonitor.append\<close> is declared outside client.go; it
  enqueues the waiter (expected state, completion signal) at the end of the queue. The
  monitor belongs to the container the registry holds under \<open>cid\<close>.
\<close>

definition pauseMonitor_append :: "string \<Rightarrow> container \<Rightarrow> string \<Rightarrow> chan \<Rightarrow> client \<Rightarrow> client" where
  "pauseMonitor_append cid k st ch c =
     emit (MonitorAppend cid st ch)
       (c\<lparr>containers := (containers c)(cid \<mapsto> k\<lparr>pauseMonitor := pauseMonitor k @ [(st, ch)]\<rparr>)\<rparr>)"

text \<open>
  \<open>setState\<close>. \<open>chstate\<close> is the channel \<open>make\<close> returns. The result is \<open>None\<close> when the call
  never returns, that is when the receive \<open><-chstate\<close> is never released.
\<close>

definition setState ::
  "world \<Rightarrow> string \<Rightarrow> string \<Rightarrow> chan \<Rightarrow> client \<Rightarrow> (error + unit) option \<times> client" where
  "setState w cid st chstate c =
     (let c1 = lock cid c
      in (case getContainer c1 cid of
            Inl e \<Rightarrow> (Some (Inl e), unlock cid c1)
          | Inr k \<Rightarrow>
              (if systemPid k = 0 then (Some (Inl (NoActiveProcess cid)), unlock cid c1)
               else (let status = (if st = StatePause then ''paused'' else ''running'');
                         c2 = emit (RpcUpdateContainer cid initProcessID status) c1
                     in (case api_UpdateContainer w cid initProcessID status of
                           Inl e \<Rightarrow> (Some (Inl e), unlock cid c2)
                         | Inr u \<Rightarrow>
                             (let c3 = pauseMonitor_append cid k st chstate c2;
                                  c4 = unlock cid c3;
                                  c5 = emit (Receive chstate) c4
                              in (if signalled w chstate then Some (Inr ()) else None, c5)))))))"

definition Pause :: "world \<Rightarrow> string \<Rightarrow> chan \<Rightarrow> client \<Rightarrow> (error + unit) option \<times> client" where
  "Pause w cid chstate c = setState w cid StatePause chstate c"

definition Resume :: "world \<Rightarrow> string \<Rightarrow> chan \<Rightarrow> client \<Rightarrow> (error + unit) option \<times> client" where
  "Resume w cid chstate c = setState w cid StateResume chstate c"

section \<open>Orderings on traces\<close>

text \<open>
  \<open>preceded P Q tr\<close>: reading \<open>tr\<close> from the left, no action satisfying \<open>Q\<close> is met before
  the first action satisfying \<open>P\<close>.
\<close>

fun preceded :: "(action \<Rightarrow> bool) \<Rightarrow> (action \<Rightarrow> bool) \<Rightarrow> action list \<Rightarrow> bool" where
  "preceded P Q [] = True"
| "preceded P Q (a # as) = (if Q a then False else if P a then True else preceded P Q as)"

text \<open>A call of \<open>AttachStreams\<close> for the ID that the Backend answered with nil.\<close>

definition attach_ok :: "world \<Rightarrow> string \<Rightarrow> action \<Rightarrow> bool" where
  "attach_ok w cid a =
     (case a of
        AttachStreams i iopipe \<Rightarrow> i = cid \<and> backend_AttachStreams w i iopipe = Inr ()
      | _ \<Rightarrow> False)"

text \<open>The actions that make a container visible: a registry insertion, a notification.\<close>

definition announces :: "action \<Rightarrow> bool" where
  "announces a = (case a of RegistryPut key \<Rightarrow> True | StateChanged i info \<Rightarrow> True | _ \<Rightarrow> False)"

text \<open>The release of the per-ID lock, and the enqueueing of a waiter.\<close>

definition is_Unlock :: "string \<Rightarrow> action \<Rightarrow> bool" where
  "is_Unlock cid a = (a = Unlock cid)"

definition is_MonitorAppend :: "action \<Rightarrow> bool" where
  "is_MonitorAppend a = (case a of MonitorAppend i st ch \<Rightarrow> True | _ \<Rightarrow> False)"

section \<open>Example inputs\<close>

text \<open>
  A daemon that knows every ID it is asked about (the reply also lists another
  container first) and collaborators that never fail; then variants where one of them
  fails.
\<close>

definition world0 :: world where
  "world0 =
     \<lparr>api_State = (\<lambda>cid. Inr [\<lparr>Id = ''other'', BundlePath = ''/run/docker/other'',
                                Status = ''running'', Pids = [9]\<rparr>,
                              \<lparr>Id = cid, BundlePath = ''/run/docker/'' @ cid,
                                Status = ''running'', Pids = [1, 42]\<rparr>]),
      api_UpdateContainer = (\<lambda>cid p st. Inr ()),
      backend_AttachStreams = (\<lambda>cid iopipe. Inr ()),
      backend_StateChanged = (\<lambda>cid info. Inr ()),
      openFifos = (\<lambda>k. Inr 3),
      systemPid_of = (\<lambda>cont. 42),
      signalled = (\<lambda>ch. True)\<rparr>"

definition world_no_daemon :: world where
  "world_no_daemon = world0\<lparr>api_State := (\<lambda>cid. Inl (Upstream ''rpc''))\<rparr>"

definition world_empty_reply :: world where
  "world_empty_reply = world0\<lparr>api_State := (\<lambda>cid. Inr [])\<rparr>"

definition world_no_backend :: world where
  "world_no_backend = world0\<lparr>backend_StateChanged := (\<lambda>cid info. Inl (Upstream ''backend''))\<rparr>"

definition world_no_daemon_no_backend :: world where
  "world_no_daemon_no_backend =
     world_no_daemon\<lparr>backend_StateChanged := (\<lambda>cid info. Inl (Upstream ''backend''))\<rparr>"

definition world_no_update :: world where
  "world_no_update = world0\<lparr>api_UpdateContainer := (\<lambda>cid p st. Inl (Upstream ''rpc''))\<rparr>"

definition client0 :: client where
  "client0 = \<lparr>containerMutexes = Map.empty, containers = Map.empty,
              pastEvents = Map.empty, trace = []\<rparr>"

definition container_c1 :: "uint32 \<Rightarrow> container" where
  "container_c1 pid =
     \<lparr>id_field = ''c1'', dir = ''/run/docker/c1'', processID = ''init'',
      systemPid = pid, processes = Map.empty, pauseMonitor = []\<rparr>"

definition client_live :: client where
  "client_live = client0\<lparr>containers := [''c1'' \<mapsto> container_c1 42]\<rparr>"

definition client_idle :: client where
  "client_idle = client0\<lparr>containers := [''c1'' \<mapsto> container_c1 0]\<rparr>"

definition pause_event :: Event where
  "pause_event = \<lparr>Event_Id = ''c1'', Event_Type = ''pause'', Event_Status = 0,
                  Event_Pid = ''init''\<rparr>"

definition exit_event :: Event where
  "exit_event = \<lparr>Event_Id = ''c2'', Event_Type = ''exit'', Event_Status = 7,
                 Event_Pid = ''init''\<rparr>"

definition client_backlog_pause :: client where
  "client_backlog_pause = client0\<lparr>pastEvents := [''c1'' \<mapsto> pause_event]\<rparr>"

definition client_backlog_exit :: client where
  "client_backlog_exit = client0\<lparr>pastEvents := [''c2'' \<mapsto> exit_event]\<rparr>"

text \<open>The daemon's report of \<open>c1\<close>, as \<open>world0\<close> gives it.\<close>

definition report_c1 :: containerd_Container where
  "report_c1 = \<lparr>Id = ''c1'', BundlePath = ''/run/docker/c1'', Status = ''running'',
                Pids = [1, 42]\<rparr>"

text \<open>A daemon report whose bundle directory is not named after the container.\<close>

definition report_c1_at_x :: containerd_Container where
  "report_c1_at_x = \<lparr>Id = ''c1'', BundlePath = ''/run/x'', Status = ''running'', Pids = [42]\<rparr>"

section \<open>Basic facts\<close>

lemmas client_ops = emit_def lock_def unlock_def getContainer_def appendContainer_def
  deleteContainer_def

lemmas example_worlds = world0_def world_no_daemon_def world_empty_reply_def
  world_no_backend_def world_no_daemon_no_backend_def world_no_update_def

lemmas example_clients = client0_def client_live_def client_idle_def container_c1_def
  client_backlog_pause_def client_backlog_exit_def pause_event_def exit_event_def

lemmas state_names = StatePause_def StateResume_def StateExit_def StateRestore_def
  initProcessID_def

lemma fill_pids_eq:
  "i + length ps \<le> length pids \<Longrightarrow>
   fill_pids i ps pids = take i pids @ map ucast ps @ drop (i + length ps) pids"
proof (induction ps arbitrary: i pids)
  case Nil
  then show ?case by simp
next
  case (Cons p ps)
  then show ?case
    by (simp add: take_Suc_conv_app_nth upd_conv_take_nth_drop add.commute)
qed

lemma fill_pids_replicate:
  "fill_pids 0 ps (replicate (length ps) 0) = map ucast ps"
  by (simp add: fill_pids_eq)

lemma find_container_find:
  "find_container cid conts =
     (case find (\<lambda>k. Id k = cid) conts of None \<Rightarrow> Inl InvalidStateResponse | Some k \<Rightarrow> Inr k)"
  by (induction conts) simp_all

lemma find_container_Id:
  "find_container cid conts = Inr cont \<Longrightarrow> Id cont = cid"
  by (induction conts) (simp_all split: if_splits)

lemma find_container_none:
  "\<forall>k \<in> set conts. Id k \<noteq> cid \<Longrightarrow> find_container cid conts = Inl InvalidStateResponse"
  by (induction conts) simp_all

lemma getContainerdContainer_client:
  "snd (getContainerdContainer w cid c) = emit (RpcState cid) c"
  by (simp add: getContainerdContainer_def split: sum.splits)

lemma getContainerdContainer_Id:
  "fst (getContainerdContainer w cid c) = Inr cont \<Longrightarrow> Id cont = cid"
  by (auto simp: getContainerdContainer_def find_container_Id split: sum.splits)

section \<open>GetPidsForContainer\<close>

text \<open>Where \<open>int\<close> has 64 bits, \<open>int(p)\<close> keeps the value of the \<open>uint32\<close>.\<close>

lemma int_of_uint32_64:
  "uint (ucast (p :: uint32) :: 64 word) = uint p"
  by (simp add: uint_up_ucast is_up)

lemma int_of_uint32_64_signed:
  "sint (ucast (p :: uint32) :: 64 word) = uint p"
proof -
  have "uint p < 2 ^ 32"
    using uint_bounded [of p] by simp
  then have "uint p < 2 ^ 63"
    by simp
  moreover have "- (2 ^ 63) \<le> uint p"
  proof -
    have "- (2 ^ 63) \<le> (0 :: int)" by simp
    also have "0 \<le> uint p" by (rule uint_nonnegative)
    finally show ?thesis .
  qed
  ultimately have "signed_take_bit 63 (uint p) = uint p"
    by (intro signed_take_bit_int_eq_self) simp_all
  then show ?thesis
    by (simp add: signed_ucast_eq)
qed

text \<open>
  C10. When the State reply holds a container with the requested ID,
  \<open>GetPidsForContainer\<close> returns a list as long as the reported \<open>Pids\<close> whose elements are
  the reported pids converted to \<open>int\<close>, in order; when the reply holds none, it fails
  with the "invalid state response" error and returns no list.
\<close>

theorem GetPidsForContainer_pids:
  assumes "api_State w cid = Inr conts"
  shows "(find (\<lambda>k. Id k = cid) conts = None \<longrightarrow>
            fst (GetPidsForContainer w cid c :: (error + 'w::len word list) \<times> client)
              = Inl InvalidStateResponse) \<and>
         (\<forall>cont. find (\<lambda>k. Id k = cid) conts = Some cont \<longrightarrow>
            (\<exists>pids :: 'w word list.
               fst (GetPidsForContainer w cid c) = Inr pids \<and>
               length pids = length (Pids cont) \<and>
               (\<forall>i < length pids. pids ! i = ucast (Pids cont ! i))))"
  using assms
  by (simp add: GetPidsForContainer_def getContainerdContainer_def find_container_find
      fill_pids_replicate)

theorem GetPidsForContainer_pids_witness:
  "api_State world0 ''c1'' =
     Inr [\<lparr>Id = ''other'', BundlePath = ''/run/docker/other'', Status = ''running'', Pids = [9]\<rparr>,
          \<lparr>Id = ''c1'', BundlePath = ''/run/docker/c1'', Status = ''running'', Pids = [1, 42]\<rparr>] \<and>
   fst (GetPidsForContainer world0 ''c1'' client0 :: (error + 64 word list) \<times> client)
     = Inr [1, 42] \<and>
   api_State world_empty_reply ''c1'' = Inr [] \<and>
   fst (GetPidsForContainer world_empty_reply ''c1'' client0 :: (error + 64 word list) \<times> client)
     = Inl InvalidStateResponse"
proof -
  let ?conts = "[\<lparr>Id = ''other'', BundlePath = ''/run/docker/other'', Status = ''running'',
                   Pids = [9]\<rparr>,
                 \<lparr>Id = ''c1'', BundlePath = ''/run/docker/c1'', Status = ''running'',
                   Pids = [1, 42]\<rparr>]"
  have reply: "api_State world0 ''c1'' = Inr ?conts"
    by (simp add: world0_def)
  have empty: "api_State world_empty_reply ''c1'' = Inr []"
    by (simp add: world_empty_reply_def world0_def)
  from GetPidsForContainer_pids [OF reply, of client0, where 'w = 64]
  obtain pids :: "64 word list" where pids:
    "fst (GetPidsForContainer world0 ''c1'' client0) = Inr pids"
    "length pids = 2" "\<forall>i < length pids. pids ! i = ucast ([1, 42 :: uint32] ! i)"
    by auto
  from pids(2,3) have "pids ! 0 = 1" "pids ! 1 = 42" by simp_all
  with pids(2) have "pids = [1, 42]"
    by (cases pids; cases "tl pids"; cases "tl (tl pids)") auto
  with pids(1) reply empty GetPidsForContainer_pids [OF empty, of client0, where 'w = 64]
  show ?thesis by simp
qed

section \<open>Pause and Resume: the guards of setState\<close>

lemma setState_no_active_process:
  assumes "containers c cid = Some k" and "systemPid k = 0"
  shows "setState w cid st ch c =
           (Some (Inl (NoActiveProcess cid)),
            c\<lparr>containerMutexes := (containerMutexes c)(cid \<mapsto> False),
              trace := trace c @ [Lock cid, Unlock cid]\<rparr>)"
  using assms by (simp add: setState_def client_ops)

text \<open>
  C3. On a registered container whose \<open>systemPid\<close> is 0, \<open>Pause\<close> and \<open>Resume\<close> return
  the "no active process" error. The only effects are the lock and the unlock of the ID:
  the trace gains no RPC and no monitor append, and the registry (so the container's
  pause monitor) is unchanged.
\<close>

theorem Pause_Resume_no_active_process:
  assumes "containers c cid = Some k" and "systemPid k = 0"
  shows "Pause w cid ch c =
           (Some (Inl (NoActiveProcess cid)),
            c\<lparr>containerMutexes := (containerMutexes c)(cid \<mapsto> False),
              trace := trace c @ [Lock cid, Unlock cid]\<rparr>) \<and>
         Resume w cid ch c =
           (Some (Inl (NoActiveProcess cid)),
            c\<lparr>containerMutexes := (containerMutexes c)(cid \<mapsto> False),
              trace := trace c @ [Lock cid, Unlock cid]\<rparr>) \<and>
         containers (snd (Pause w cid ch c)) = containers c \<and>
         containers (snd (Resume w cid ch c)) = containers c"
  using assms by (simp add: Pause_def Resume_def setState_no_active_process)

theorem Pause_Resume_no_active_process_witness:
  "containers client_idle ''c1'' = Some (container_c1 0) \<and>
   systemPid (container_c1 0) = 0 \<and>
   fst (Pause world0 ''c1'' 7 client_idle) = Some (Inl (NoActiveProcess ''c1'')) \<and>
   fst (Resume world0 ''c1'' 7 client_idle) = Some (Inl (NoActiveProcess ''c1'')) \<and>
   trace (snd (Pause world0 ''c1'' 7 client_idle)) = [Lock ''c1'', Unlock ''c1''] \<and>
   containers (snd (Pause world0 ''c1'' 7 client_idle)) ''c1'' = Some (container_c1 0)"
proof -
  have reg: "containers client_idle ''c1'' = Some (container_c1 0)"
    by (simp add: client_idle_def client0_def)
  have pid: "systemPid (container_c1 0) = 0"
    by (simp add: container_c1_def)
  from Pause_Resume_no_active_process [OF reg pid, of world0 7] reg pid
  show ?thesis by (simp add: client_idle_def client0_def)
qed

text \<open>
  C4, as the code has it. With the container registered and \<open>systemPid\<close> not 0:
  when the \<open>UpdateContainer\<close> RPC fails, \<open>setState\<close> returns the RPC error after exactly
  lock, RPC, unlock, and the registry is unchanged (no waiter); when the RPC succeeds,
  the waiter is appended to the container's monitor while the per-ID lock is still held,
  then the lock is released, and only then does the caller receive on the channel; the
  call returns nil if the channel is ever released and does not return otherwise.
\<close>

theorem setState_rpc_outcomes:
  assumes "containers c cid = Some k" and "systemPid k \<noteq> 0"
    and "status = (if st = StatePause then ''paused'' else ''running'')"
  shows "(\<forall>e. api_UpdateContainer w cid initProcessID status = Inl e \<longrightarrow>
            setState w cid st ch c =
              (Some (Inl e),
               c\<lparr>containerMutexes := (containerMutexes c)(cid \<mapsto> False),
                 trace := trace c @ [Lock cid, RpcUpdateContainer cid initProcessID status,
                                     Unlock cid]\<rparr>)) \<and>
         (api_UpdateContainer w cid initProcessID status = Inr () \<longrightarrow>
            setState w cid st ch c =
              (if signalled w ch then Some (Inr ()) else None,
               c\<lparr>containerMutexes := (containerMutexes c)(cid \<mapsto> False),
                 containers := (containers c)
                    (cid \<mapsto> k\<lparr>pauseMonitor := pauseMonitor k @ [(st, ch)]\<rparr>),
                 trace := trace c @ [Lock cid, RpcUpdateContainer cid initProcessID status,
                                     MonitorAppend cid st ch, Unlock cid, Receive ch]\<rparr>))"
  using assms by (simp add: setState_def client_ops pauseMonitor_append_def Let_def)

theorem setState_rpc_outcomes_witness:
  "containers client_live ''c1'' = Some (container_c1 42) \<and>
   systemPid (container_c1 42) \<noteq> 0 \<and>
   api_UpdateContainer world_no_update ''c1'' initProcessID ''paused'' = Inl (Upstream ''rpc'') \<and>
   fst (setState world_no_update ''c1'' StatePause 7 client_live) = Some (Inl (Upstream ''rpc'')) \<and>
   trace (snd (setState world_no_update ''c1'' StatePause 7 client_live)) =
     [Lock ''c1'', RpcUpdateContainer ''c1'' initProcessID ''paused'', Unlock ''c1''] \<and>
   containers (snd (setState world_no_update ''c1'' StatePause 7 client_live)) ''c1'' =
     Some (container_c1 42) \<and>
   api_UpdateContainer world0 ''c1'' initProcessID ''paused'' = Inr () \<and>
   fst (setState world0 ''c1'' StatePause 7 client_live) = Some (Inr ()) \<and>
   trace (snd (setState world0 ''c1'' StatePause 7 client_live)) =
     [Lock ''c1'', RpcUpdateContainer ''c1'' initProcessID ''paused'',
      MonitorAppend ''c1'' StatePause 7, Unlock ''c1'', Receive 7] \<and>
   containers (snd (setState world0 ''c1'' StatePause 7 client_live)) ''c1'' =
     Some ((container_c1 42)\<lparr>pauseMonitor := [(StatePause, 7)]\<rparr>)"
proof -
  have reg: "containers client_live ''c1'' = Some (container_c1 42)"
    by (simp add: client_live_def client0_def)
  have pid: "systemPid (container_c1 42) \<noteq> 0"
    by (simp add: container_c1_def)
  have st: "''paused'' = (if StatePause = StatePause then ''paused'' else ''running'')"
    by simp
  have fails: "api_UpdateContainer world_no_update ''c1'' initProcessID ''paused''
                 = Inl (Upstream ''rpc'')"
    by (simp add: world_no_update_def world0_def)
  have ok: "api_UpdateContainer world0 ''c1'' initProcessID ''paused'' = Inr ()"
    by (simp add: world0_def)
  have sig: "signalled world0 7"
    by (simp add: world0_def)
  have mon: "pauseMonitor (container_c1 42) = []"
    by (simp add: container_c1_def)
  from setState_rpc_outcomes [OF reg pid st, of world_no_update 7]
       setState_rpc_outcomes [OF reg pid st, of world0 7]
       reg pid fails ok sig mon
  show ?thesis by (simp add: client_live_def client0_def)
qed

text \<open>
  C4 as stated fails: in a successful \<open>Pause\<close> the waiter is appended (third action)
  before the per-ID lock is released (fourth action), so the append is not preceded by
  the unlock.
\<close>

theorem Pause_appends_under_lock_counterexample:
  "trace (snd (Pause world0 ''c1'' 7 client_live)) =
     [Lock ''c1'', RpcUpdateContainer ''c1'' ''init'' ''paused'',
      MonitorAppend ''c1'' ''pause'' 7, Unlock ''c1'', Receive 7] \<and>
   \<not> preceded (is_Unlock ''c1'') is_MonitorAppend
        (trace (snd (Pause world0 ''c1'' 7 client_live)))"
  by (simp add: Pause_def setState_def client_ops pauseMonitor_append_def Let_def
      example_worlds example_clients state_names is_Unlock_def is_MonitorAppend_def)

section \<open>The restore path\<close>

lemma preceded_skip:
  "\<forall>a \<in> set xs. \<not> P a \<and> \<not> Q a \<Longrightarrow> preceded P Q (xs @ ys) = preceded P Q ys"
  by (induction xs) simp_all

lemma preceded_tail:
  "preceded P Q xs \<Longrightarrow> \<forall>a \<in> set ys. \<not> Q a \<Longrightarrow> preceded P Q (xs @ ys)"
proof (induction xs)
  case Nil
  then show ?case by (induction ys) simp_all
next
  case (Cons x xs)
  then show ?case by (simp split: if_splits)
qed

lemma precededD:
  "preceded P Q (pre @ a # post) \<Longrightarrow> Q a \<Longrightarrow> \<exists>b \<in> set pre. P b"
  by (induction pre) (auto split: if_splits)

lemma attach_okD:
  "attach_ok w cid b \<Longrightarrow>
   \<exists>iopipe. b = AttachStreams cid iopipe \<and> backend_AttachStreams w cid iopipe = Inr ()"
  by (cases b) (simp_all add: attach_ok_def)

lemma restore_body_pastEvents:
  "pastEvents (snd (restore_body w cont opts c)) = pastEvents c"
  by (simp add: restore_body_def newContainer_def client_ops Let_def
      split: prod.splits sum.splits option.splits)

lemma restore_body_containerMutexes:
  "containerMutexes (snd (restore_body w cont opts c)) = containerMutexes c"
  by (simp add: restore_body_def newContainer_def client_ops Let_def
      split: prod.splits sum.splits option.splits)

lemma restore_body_trace:
  "\<exists>delta. trace (snd (restore_body w cont opts c)) = trace c @ delta \<and>
           preceded (attach_ok w (Id cont)) announces delta"
  by (simp add: restore_body_def newContainer_def client_ops Let_def preceded_skip
      attach_ok_def announces_def
      split: prod.splits sum.splits option.splits)

text \<open>
  The registry after the body: untouched, or extended at the constructed container's own
  \<open>id\<close> field.
\<close>

lemma restore_body_containers:
  "containers (snd (restore_body w cont opts c)) = containers c \<or>
   containers (snd (restore_body w cont opts c)) =
     (containers c)(id_field (fst (newContainer (BundlePath cont) opts c)) \<mapsto>
        (fst (newContainer (BundlePath cont) opts c))\<lparr>systemPid := systemPid_of w cont\<rparr>)"
  by (simp add: restore_body_def newContainer_def client_ops Let_def
      split: prod.splits sum.splits option.splits)

lemma newContainer_container:
  "fst (newContainer d opts c) = fst (newContainer d opts c')"
  by (simp add: newContainer_def split: prod.splits)

lemma unlock_trace:
  "\<exists>a. trace (unlock cid c) = trace c @ [a] \<and> \<not> announces a"
  by (simp add: unlock_def emit_def announces_def split: option.splits)

lemma unlock_held:
  "containerMutexes c cid = Some b \<Longrightarrow>
   unlock cid c = c\<lparr>containerMutexes := (containerMutexes c)(cid \<mapsto> False),
                     trace := trace c @ [Unlock cid]\<rparr>"
  by (simp add: unlock_def emit_def)

lemma restore_active:
  assumes "containers c (Id cont) = Some k"
  shows "restore w cont opts c =
           (Inl (AlreadyActive (Id cont)),
            c\<lparr>containerMutexes := (containerMutexes c)(Id cont \<mapsto> False),
              trace := trace c @ [Lock (Id cont),
                                  Log DebugLevel (RestoreContainer (Id cont) (Status cont)),
                                  Unlock (Id cont)]\<rparr>)"
  using assms by (simp add: restore_def client_ops)

lemma restore_fresh:
  assumes "containers c (Id cont) = None"
    and "restore_body w cont opts
           (emit (Log DebugLevel (RestoreContainer (Id cont) (Status cont))) (lock (Id cont) c))
         = (r, c2)"
  shows "restore w cont opts c =
           (r, unlock (Id cont) (case r of Inl e \<Rightarrow> deleteContainer (Id cont) c2 | Inr u \<Rightarrow> c2))"
  using assms by (cases r) (simp_all add: restore_def getContainer_def emit_def lock_def)

lemma restore_pastEvents:
  "pastEvents (snd (restore w cont opts c)) = pastEvents c"
proof (cases "containers c (Id cont)")
  case (Some k)
  then show ?thesis by (simp add: restore_active)
next
  case None
  let ?c1 = "emit (Log DebugLevel (RestoreContainer (Id cont) (Status cont))) (lock (Id cont) c)"
  obtain r c2 where body: "restore_body w cont opts ?c1 = (r, c2)"
    by (cases "restore_body w cont opts ?c1")
  from restore_body_pastEvents [of w cont opts ?c1] body
  have "pastEvents c2 = pastEvents c"
    by (simp add: emit_def lock_def)
  then show ?thesis
    by (cases r)
      (simp_all add: restore_fresh [OF None body] unlock_def emit_def deleteContainer_def
        split: option.splits)
qed

lemma restore_trace:
  "\<exists>delta. trace (snd (restore w cont opts c)) = trace c @ delta \<and>
           preceded (attach_ok w (Id cont)) announces delta"
proof (cases "containers c (Id cont)")
  case (Some k)
  then show ?thesis
    by (simp add: restore_active attach_ok_def announces_def)
next
  case None
  let ?c1 = "emit (Log DebugLevel (RestoreContainer (Id cont) (Status cont))) (lock (Id cont) c)"
  let ?P = "attach_ok w (Id cont)"
  obtain r c2 where body: "restore_body w cont opts ?c1 = (r, c2)"
    by (cases "restore_body w cont opts ?c1")
  from restore_body_trace [of w cont opts ?c1] body
  obtain delta where delta: "trace c2 = trace ?c1 @ delta" "preceded ?P announces delta"
    by auto
  let ?c3 = "case r of Inl e \<Rightarrow> deleteContainer (Id cont) c2 | Inr u \<Rightarrow> c2"
  obtain tl where tl: "trace ?c3 = trace c2 @ tl" "\<forall>a \<in> set tl. \<not> announces a"
    by (cases r) (simp_all add: deleteContainer_def emit_def announces_def)
  obtain a where a: "trace (unlock (Id cont) ?c3) = trace ?c3 @ [a]" "\<not> announces a"
    using unlock_trace by blast
  have c1: "trace ?c1 = trace c @ [Lock (Id cont),
              Log DebugLevel (RestoreContainer (Id cont) (Status cont))]"
    by (simp add: emit_def lock_def)
  have "preceded ?P announces (delta @ tl @ [a])"
    using delta(2) tl(2) a(2) by (intro preceded_tail) auto
  then have "preceded ?P announces
               ([Lock (Id cont), Log DebugLevel (RestoreContainer (Id cont) (Status cont))]
                  @ delta @ tl @ [a])"
    by (simp add: attach_ok_def announces_def)
  moreover have "trace (snd (restore w cont opts c)) =
        trace c @ [Lock (Id cont), Log DebugLevel (RestoreContainer (Id cont) (Status cont))]
          @ delta @ tl @ [a]"
    using restore_fresh [OF None body] a(1) tl(1) delta(1) c1 by simp
  ultimately show ?thesis by blast
qed

text \<open>
  C8. In the effects of \<open>restore\<close>, every registry insertion and every \<open>StateChanged\<close>
  notification (the Restore notification among them) comes after a call of
  \<open>AttachStreams\<close> for the container's ID that the Backend answered with nil.
\<close>

theorem restore_attach_before_live:
  assumes "trace (snd (restore w cont opts c)) = trace c @ pre @ a # post"
    and "a = RegistryPut key \<or> a = StateChanged i info"
  shows "\<exists>iopipe. AttachStreams (Id cont) iopipe \<in> set pre \<and>
                  backend_AttachStreams w (Id cont) iopipe = Inr ()"
proof -
  from assms(2) have ann: "announces a"
    by (auto simp: announces_def)
  from restore_trace [of w cont opts c] assms(1)
  have "preceded (attach_ok w (Id cont)) announces (pre @ a # post)"
    by auto
  from precededD [OF this ann]
  obtain b where "b \<in> set pre" "attach_ok w (Id cont) b" by blast
  with attach_okD [of w "Id cont" b] show ?thesis by blast
qed


theorem restore_attach_before_live_witness:
  "trace (snd (restore world0 report_c1 [] client0)) =
     trace client0 @
       [Lock ''c1'', Log DebugLevel (RestoreContainer ''c1'' ''running''), OpenFifos ''c1'',
        AttachStreams ''c1'' 3] @
       RegistryPut ''c1'' #
       [StateChanged ''c1'' \<lparr>State = ''restore'', Pid = 42, ExitCode = 0\<rparr>, Unlock ''c1''] \<and>
   (\<exists>iopipe.
      AttachStreams (Id report_c1) iopipe
        \<in> set [Lock ''c1'', Log DebugLevel (RestoreContainer ''c1'' ''running''),
                OpenFifos ''c1'', AttachStreams ''c1'' 3] \<and>
      backend_AttachStreams world0 (Id report_c1) iopipe = Inr ())"
proof -
  have tr: "trace (snd (restore world0 report_c1 [] client0)) =
     trace client0 @
       [Lock ''c1'', Log DebugLevel (RestoreContainer ''c1'' ''running''), OpenFifos ''c1'',
        AttachStreams ''c1'' 3] @
       RegistryPut ''c1'' #
       [StateChanged ''c1'' \<lparr>State = ''restore'', Pid = 42, ExitCode = 0\<rparr>, Unlock ''c1'']"
    by (simp add: restore_def restore_body_def newContainer_def client_ops Let_def
        filepath_Base_def report_c1_def example_worlds example_clients state_names)
  have put: "RegistryPut ''c1'' = RegistryPut ''c1'' \<or>
             RegistryPut ''c1'' = StateChanged ''c1'' \<lparr>State = ''restore'', Pid = 42, ExitCode = 0\<rparr>"
    by simp
  from restore_attach_before_live [OF tr put] tr show ?thesis by blast
qed

section \<open>Restore of an ID that is already registered\<close>

lemma Restore_lookup_ok:
  assumes "fst (getContainerdContainer w cid c) = Inr cont"
  shows "Restore w cid opts c =
           (Inr (),
            case restore w cont opts (emit (RpcState cid) c) of
              (Inl err, c2) \<Rightarrow> emit (Log ErrorLevel (ErrorRestoring cid err)) c2
            | (Inr u, c2) \<Rightarrow> c2)"
proof -
  from assms have "getContainerdContainer w cid c = (Inr cont, emit (RpcState cid) c)"
    using getContainerdContainer_client [of w cid c]
    by (cases "getContainerdContainer w cid c") simp
  then show ?thesis
    by (simp add: Restore_def split: prod.splits sum.splits)
qed

text \<open>
  C5. When the ID is already in the registry and the daemon reports the container,
  \<open>restore\<close> fails with the "already active" error and the registry is unchanged; the
  public \<open>Restore\<close> logs that error, returns nil, and leaves the registry unchanged too.
\<close>

theorem restore_already_active:
  assumes "containers c cid = Some k"
    and "fst (getContainerdContainer w cid c) = Inr cont"
  shows "fst (restore w cont opts c) = Inl (AlreadyActive cid) \<and>
         containers (snd (restore w cont opts c)) = containers c \<and>
         fst (Restore w cid opts c) = Inr () \<and>
         containers (snd (Restore w cid opts c)) = containers c \<and>
         trace (snd (Restore w cid opts c)) =
           trace c @ [RpcState cid, Lock cid,
                      Log DebugLevel (RestoreContainer cid (Status cont)), Unlock cid,
                      Log ErrorLevel (ErrorRestoring cid (AlreadyActive cid))]"
proof -
  from assms(2) have cid: "Id cont = cid"
    by (rule getContainerdContainer_Id)
  from assms(1) cid have reg: "containers c (Id cont) = Some k"
    by simp
  from assms(1) cid have reg': "containers (emit (RpcState cid) c) (Id cont) = Some k"
    by (simp add: emit_def)
  show ?thesis
    unfolding Restore_lookup_ok [OF assms(2)] restore_active [OF reg] restore_active [OF reg']
    by (simp add: emit_def cid)
qed

theorem restore_already_active_witness:
  "containers client_live ''c1'' = Some (container_c1 42) \<and>
   fst (getContainerdContainer world0 ''c1'' client_live) = Inr report_c1 \<and>
   fst (restore world0 report_c1 [] client_live) = Inl (AlreadyActive ''c1'') \<and>
   containers (snd (restore world0 report_c1 [] client_live)) ''c1'' = Some (container_c1 42) \<and>
   fst (Restore world0 ''c1'' [] client_live) = Inr () \<and>
   containers (snd (Restore world0 ''c1'' [] client_live)) ''c1'' = Some (container_c1 42)"
proof -
  have reg: "containers client_live ''c1'' = Some (container_c1 42)"
    by (simp add: client_live_def client0_def)
  have rep: "fst (getContainerdContainer world0 ''c1'' client_live) = Inr report_c1"
    by (simp add: getContainerdContainer_def world0_def report_c1_def)
  from restore_already_active [OF reg rep, of "[]"] reg rep
  show ?thesis by simp
qed

section \<open>Cleanup after a failed restore\<close>

text \<open>
  What the deferred cleanup does on every input. When \<open>restore\<close> of an unregistered ID
  fails, \<open>deleteContainer(cont.Id)\<close> is the last registry action before the unlock, and
  the registry has no entry for that ID afterwards. The registry is exactly as before the
  call when the constructed container's own \<open>id\<close> (the base name of the reported bundle
  path, after the options) is that ID.
\<close>

lemma restore_failure_cleanup:
  assumes "containers c (Id cont) = None"
    and "fst (restore w cont opts c) = Inl e"
  shows "containers (snd (restore w cont opts c)) (Id cont) = None \<and>
         (\<exists>pre. trace (snd (restore w cont opts c)) =
                  trace c @ pre @ [RegistryDelete (Id cont), Unlock (Id cont)]) \<and>
         (id_field (fst (newContainer (BundlePath cont) opts c)) = Id cont \<longrightarrow>
            containers (snd (restore w cont opts c)) = containers c)"
proof -
  let ?c1 = "emit (Log DebugLevel (RestoreContainer (Id cont) (Status cont))) (lock (Id cont) c)"
  let ?k = "fst (newContainer (BundlePath cont) opts c)"
  obtain r c2 where body: "restore_body w cont opts ?c1 = (r, c2)"
    by (cases "restore_body w cont opts ?c1")
  from restore_fresh [OF assms(1) body] assms(2) have r: "r = Inl e"
    by simp
  have res: "restore w cont opts c = (Inl e, unlock (Id cont) (deleteContainer (Id cont) c2))"
    using restore_fresh [OF assms(1) body] r by simp
  have "containerMutexes c2 (Id cont) = Some True"
    using restore_body_containerMutexes [of w cont opts ?c1] body
    by (simp add: emit_def lock_def)
  then have held: "containerMutexes (deleteContainer (Id cont) c2) (Id cont) = Some True"
    by (simp add: deleteContainer_def emit_def)
  from restore_body_trace [of w cont opts ?c1] body
  obtain delta where "trace c2 = trace ?c1 @ delta"
    by auto
  then have tr: "trace c2 = trace c @
      ([Lock (Id cont), Log DebugLevel (RestoreContainer (Id cont) (Status cont))] @ delta)"
    by (simp add: emit_def lock_def)
  have k: "fst (newContainer (BundlePath cont) opts ?c1) = ?k"
    by (rule newContainer_container)
  have regs: "containers c2 = containers c \<or>
              containers c2 = (containers c)(id_field ?k \<mapsto> ?k\<lparr>systemPid := systemPid_of w cont\<rparr>)"
    using restore_body_containers [of w cont opts ?c1] body k
    by (simp add: emit_def lock_def)
  have fin: "snd (restore w cont opts c) =
      (deleteContainer (Id cont) c2)
        \<lparr>containerMutexes :=
           (containerMutexes (deleteContainer (Id cont) c2))(Id cont \<mapsto> False),
         trace := trace (deleteContainer (Id cont) c2) @ [Unlock (Id cont)]\<rparr>"
    by (simp only: res unlock_held [OF held] snd_conv)
  have after: "containers (snd (restore w cont opts c)) = (containers c2)(Id cont := None)"
    by (simp add: fin deleteContainer_def emit_def)
  have "containers (snd (restore w cont opts c)) (Id cont) = None"
    by (simp add: after)
  moreover have "trace (snd (restore w cont opts c)) =
      trace c @ ([Lock (Id cont), Log DebugLevel (RestoreContainer (Id cont) (Status cont))]
                   @ delta) @ [RegistryDelete (Id cont), Unlock (Id cont)]"
    by (simp add: fin deleteContainer_def emit_def tr)
  moreover have "containers (snd (restore w cont opts c)) = containers c"
    if "id_field ?k = Id cont"
    using regs that assms(1) by (auto simp: after)
  ultimately show ?thesis by blast
qed

lemma restore_failure_cleanup_example:
  "containers client0 (Id report_c1) = None \<and>
   fst (restore world_no_backend report_c1 [] client0) = Inl (Upstream ''backend'') \<and>
   containers (snd (restore world_no_backend report_c1 [] client0)) (Id report_c1) = None \<and>
   id_field (fst (newContainer (BundlePath report_c1) [] client0)) = Id report_c1 \<and>
   containers (snd (restore world_no_backend report_c1 [] client0)) = containers client0 \<and>
   RegistryPut ''c1'' \<in> set (trace (snd (restore world_no_backend report_c1 [] client0)))"
proof -
  have fresh: "containers client0 (Id report_c1) = None"
    by (simp add: client0_def)
  have fails: "fst (restore world_no_backend report_c1 [] client0) = Inl (Upstream ''backend'')"
    by (simp add: restore_def restore_body_def newContainer_def client_ops Let_def
        filepath_Base_def report_c1_def example_worlds example_clients state_names)
  have key: "id_field (fst (newContainer (BundlePath report_c1) [] client0)) = Id report_c1"
    by (simp add: newContainer_def filepath_Base_def report_c1_def)
  have put: "RegistryPut ''c1'' \<in> set (trace (snd (restore world_no_backend report_c1 [] client0)))"
    by (simp add: restore_def restore_body_def newContainer_def client_ops Let_def
        filepath_Base_def report_c1_def example_worlds example_clients state_names)
  from restore_failure_cleanup [OF fresh fails] fresh fails key put
  show ?thesis by simp
qed

text \<open>
  C6, at the failing input. The ID \<open>c1\<close> is unregistered, the daemon reports \<open>c1\<close> with
  the bundle path \<open>/run/x\<close>, and the Backend rejects the Restore notification.
  \<open>appendContainer\<close> stored the container under its own \<open>id\<close>, \<open>x\<close>, while the per-ID
  lock held is the one of \<open>c1\<close>; the deferred cleanup deletes the key \<open>c1\<close>; \<open>restore\<close>
  returns the error and the partially constructed container is still registered under
  \<open>x\<close>.
\<close>

theorem restore_partial_registration_survives:
  "containers client0 ''c1'' = None \<and>
   containers client0 ''x'' = None \<and>
   fst (restore world_no_backend report_c1_at_x [] client0) = Inl (Upstream ''backend'') \<and>
   trace (snd (restore world_no_backend report_c1_at_x [] client0)) =
     [Lock ''c1'', Log DebugLevel (RestoreContainer ''c1'' ''running''), OpenFifos ''x'',
      AttachStreams ''c1'' 3, RegistryPut ''x'',
      StateChanged ''c1'' \<lparr>State = ''restore'', Pid = 42, ExitCode = 0\<rparr>,
      RegistryDelete ''c1'', Unlock ''c1''] \<and>
   containers (snd (restore world_no_backend report_c1_at_x [] client0)) ''c1'' = None \<and>
   containers (snd (restore world_no_backend report_c1_at_x [] client0)) ''x'' =
     Some \<lparr>id_field = ''x'', dir = ''/run/x'', processID = ''init'', systemPid = 42,
           processes = Map.empty, pauseMonitor = []\<rparr>"
  by (simp add: restore_def restore_body_def newContainer_def client_ops Let_def
      filepath_Base_def report_c1_at_x_def example_worlds example_clients state_names)

section \<open>The backlog on the restore path\<close>

text \<open>
  With the steps up to the Restore notification successful and a backlog entry for the
  ID: a pause or resume event is forwarded as the last action of the body, whose result
  is the Backend's answer; any other event is logged, and the body returns nil.
\<close>

lemma restore_body_drain:
  assumes "pastEvents c (Id cont) = Some ev"
    and "openFifos w ((fst (newContainer (BundlePath cont) opts c))
                        \<lparr>systemPid := systemPid_of w cont\<rparr>) = Inr iopipe"
    and "backend_AttachStreams w (Id cont) iopipe = Inr ()"
    and "backend_StateChanged w (Id cont)
           \<lparr>State = StateRestore, Pid = systemPid_of w cont, ExitCode = 0\<rparr> = Inr ()"
  shows "if Event_Type ev = StatePause \<or> Event_Type ev = StateResume
         then fst (restore_body w cont opts c) =
                backend_StateChanged w (Id cont)
                  \<lparr>State = Event_Type ev, Pid = systemPid_of w cont, ExitCode = 0\<rparr> \<and>
              last (trace (snd (restore_body w cont opts c))) =
                StateChanged (Id cont)
                  \<lparr>State = Event_Type ev, Pid = systemPid_of w cont, ExitCode = 0\<rparr>
         else fst (restore_body w cont opts c) = Inr () \<and>
              last (trace (snd (restore_body w cont opts c))) =
                Log WarnLevel (UnexpectedBacklogEvent ev)"
  using assms
  by (simp add: restore_body_def newContainer_def client_ops Let_def split: prod.splits)

lemma Restore_found_pastEvents:
  assumes "fst (getContainerdContainer w cid c) = Inr cont"
  shows "pastEvents (snd (Restore w cid opts c)) = pastEvents c"
proof -
  let ?c1 = "emit (RpcState cid) c"
  obtain r c2 where res: "restore w cont opts ?c1 = (r, c2)"
    by (cases "restore w cont opts ?c1")
  from restore_pastEvents [of w cont opts ?c1] res have "pastEvents c2 = pastEvents c"
    by (simp add: emit_def)
  then show ?thesis
    unfolding Restore_lookup_ok [OF assms] res
    by (cases r) (simp_all add: emit_def)
qed

text \<open>
  C1, at the failing input. The daemon reports \<open>c1\<close>, the backlog holds a pause event for
  \<open>c1\<close>, every step succeeds: the pause notification is forwarded after the Restore
  notification and \<open>Restore\<close> returns nil, but the backlog still holds the entry.
\<close>

theorem Restore_found_keeps_backlog_entry:
  "fst (Restore world0 ''c1'' [] client_backlog_pause) = Inr () \<and>
   trace (snd (Restore world0 ''c1'' [] client_backlog_pause)) =
     [RpcState ''c1'', Lock ''c1'', Log DebugLevel (RestoreContainer ''c1'' ''running''),
      OpenFifos ''c1'', AttachStreams ''c1'' 3, RegistryPut ''c1'',
      StateChanged ''c1'' \<lparr>State = ''restore'', Pid = 42, ExitCode = 0\<rparr>,
      StateChanged ''c1'' \<lparr>State = ''pause'', Pid = 42, ExitCode = 0\<rparr>,
      Unlock ''c1''] \<and>
   pastEvents client_backlog_pause ''c1'' = Some pause_event \<and>
   pastEvents (snd (Restore world0 ''c1'' [] client_backlog_pause)) ''c1'' = Some pause_event"
  by (simp add: Restore_def getContainerdContainer_def restore_def restore_body_def
      newContainer_def client_ops Let_def filepath_Base_def
      example_worlds example_clients state_names)

section \<open>What Restore returns\<close>

lemma Restore_lookup_failed:
  assumes "fst (getContainerdContainer w cid c) = Inl e"
  shows "Restore w cid opts c =
           (backend_StateChanged w cid
              \<lparr>State = StateExit, Pid = 0,
               ExitCode = (case pastEvents c cid of None \<Rightarrow> 0 | Some ev \<Rightarrow> Event_Status ev)\<rparr>,
            c\<lparr>containerMutexes := (containerMutexes c)(cid \<mapsto> False),
              pastEvents := (pastEvents c)(cid := None),
              trace := trace c @
                [RpcState cid, Lock cid,
                 StateChanged cid
                   \<lparr>State = StateExit, Pid = 0,
                    ExitCode = (case pastEvents c cid of None \<Rightarrow> 0
                                | Some ev \<Rightarrow> Event_Status ev)\<rparr>,
                 Unlock cid]\<rparr>)"
proof -
  from assms have look: "getContainerdContainer w cid c = (Inl e, emit (RpcState cid) c)"
    using getContainerdContainer_client [of w cid c]
    by (cases "getContainerdContainer w cid c") simp
  show ?thesis
  proof (cases "pastEvents c cid")
    case None
    then have "(pastEvents c)(cid := None) = pastEvents c"
      by (simp add: fun_upd_idem)
    with None show ?thesis
      by (simp add: Restore_def look client_ops Let_def)
  next
    case (Some ev)
    then show ?thesis
      by (simp add: Restore_def look client_ops Let_def)
  qed
qed

text \<open>
  C2, as the code has it. When the daemon lookup succeeds, \<open>Restore\<close> returns nil
  whatever \<open>restore\<close> returns, and an error of \<open>restore\<close> is the last thing it logs. When
  the lookup fails, the lookup error is dropped and \<open>Restore\<close> returns what the Backend
  answers to the Exit notification, error or nil.
\<close>

theorem Restore_error_policy:
  "(\<forall>cont. fst (getContainerdContainer w cid c) = Inr cont \<longrightarrow>
      fst (Restore w cid opts c) = Inr () \<and>
      (\<forall>err. fst (restore w cont opts (emit (RpcState cid) c)) = Inl err \<longrightarrow>
         last (trace (snd (Restore w cid opts c))) = Log ErrorLevel (ErrorRestoring cid err))) \<and>
   (\<forall>e. fst (getContainerdContainer w cid c) = Inl e \<longrightarrow>
      fst (Restore w cid opts c) =
        backend_StateChanged w cid
          \<lparr>State = StateExit, Pid = 0,
           ExitCode = (case pastEvents c cid of None \<Rightarrow> 0 | Some ev \<Rightarrow> Event_Status ev)\<rparr>)"
proof (intro conjI allI impI)
  fix cont
  assume ok: "fst (getContainerdContainer w cid c) = Inr cont"
  show "fst (Restore w cid opts c) = Inr ()"
    by (simp add: Restore_lookup_ok [OF ok])
  fix err
  assume "fst (restore w cont opts (emit (RpcState cid) c)) = Inl err"
  then show "last (trace (snd (Restore w cid opts c))) = Log ErrorLevel (ErrorRestoring cid err)"
    by (cases "restore w cont opts (emit (RpcState cid) c)")
      (simp add: Restore_lookup_ok [OF ok] emit_def)
next
  fix e
  assume "fst (getContainerdContainer w cid c) = Inl e"
  then show "fst (Restore w cid opts c) =
        backend_StateChanged w cid
          \<lparr>State = StateExit, Pid = 0,
           ExitCode = (case pastEvents c cid of None \<Rightarrow> 0 | Some ev \<Rightarrow> Event_Status ev)\<rparr>"
    by (simp add: Restore_lookup_failed)
qed


theorem Restore_error_policy_witness:
  "fst (getContainerdContainer world_no_backend ''c1'' client0) = Inr report_c1 \<and>
   fst (restore world_no_backend report_c1 [] (emit (RpcState ''c1'') client0))
     = Inl (Upstream ''backend'') \<and>
   fst (Restore world_no_backend ''c1'' [] client0) = Inr () \<and>
   last (trace (snd (Restore world_no_backend ''c1'' [] client0)))
     = Log ErrorLevel (ErrorRestoring ''c1'' (Upstream ''backend'')) \<and>
   fst (getContainerdContainer world_no_daemon ''c2'' client_backlog_exit)
     = Inl (Upstream ''rpc'') \<and>
   fst (Restore world_no_daemon ''c2'' [] client_backlog_exit) = Inr ()"
proof -
  have found: "fst (getContainerdContainer world_no_backend ''c1'' client0) = Inr report_c1"
    by (simp add: getContainerdContainer_def report_c1_def example_worlds)
  have fails: "fst (restore world_no_backend report_c1 [] (emit (RpcState ''c1'') client0))
                 = Inl (Upstream ''backend'')"
    by (simp add: restore_def restore_body_def newContainer_def client_ops Let_def
        filepath_Base_def report_c1_def example_worlds example_clients state_names)
  have lost: "fst (getContainerdContainer world_no_daemon ''c2'' client_backlog_exit)
                = Inl (Upstream ''rpc'')"
    by (simp add: getContainerdContainer_def example_worlds)
  have notified: "backend_StateChanged world_no_daemon ''c2''
                    \<lparr>State = StateExit, Pid = 0, ExitCode = 7\<rparr> = Inr ()"
    by (simp add: example_worlds)
  have backlog: "pastEvents client_backlog_exit ''c2'' = Some exit_event"
    by (simp add: example_clients)
  have status: "Event_Status exit_event = 7"
    by (simp add: exit_event_def)
  from Restore_error_policy [of world_no_backend "''c1''" client0 "[]"]
       Restore_error_policy [of world_no_daemon "''c2''" client_backlog_exit "[]"]
       found fails lost notified backlog status
  show ?thesis by simp
qed

text \<open>
  C2 as stated fails: the State RPC fails, the backlog holds an exit event for \<open>c2\<close>, and
  the Backend rejects the Exit notification; \<open>Restore\<close> returns the Backend's error.
\<close>

theorem Restore_returns_backend_error_counterexample:
  "fst (getContainerdContainer world_no_daemon_no_backend ''c2'' client_backlog_exit)
     = Inl (Upstream ''rpc'') \<and>
   fst (Restore world_no_daemon_no_backend ''c2'' [] client_backlog_exit)
     = Inl (Upstream ''backend'') \<and>
   fst (Restore world_no_daemon_no_backend ''c2'' [] client_backlog_exit) \<noteq> Inr ()"
  by (simp add: Restore_def getContainerdContainer_def client_ops Let_def
      example_worlds example_clients state_names)

section \<open>Restore of an ID the daemon does not report\<close>

text \<open>
  C7. When the lookup of the ID fails, \<open>Restore\<close> removes the backlog entry of the ID
  (and no other), and its effects are exactly: the State RPC, the lock, one Exit
  notification whose exit code is the status of the backlog entry, or 0 when there was
  none, and the unlock.
\<close>

theorem Restore_not_found_exit:
  assumes "fst (getContainerdContainer w cid c) = Inl e"
  shows "pastEvents (snd (Restore w cid opts c)) = (pastEvents c)(cid := None) \<and>
         trace (snd (Restore w cid opts c)) =
           trace c @
             [RpcState cid, Lock cid,
              StateChanged cid
                \<lparr>State = StateExit, Pid = 0,
                 ExitCode = (case pastEvents c cid of None \<Rightarrow> 0
                             | Some ev \<Rightarrow> Event_Status ev)\<rparr>,
              Unlock cid]"
  by (simp add: Restore_lookup_failed [OF assms])

theorem Restore_not_found_exit_witness:
  "fst (getContainerdContainer world_empty_reply ''c2'' client_backlog_exit)
     = Inl InvalidStateResponse \<and>
   pastEvents client_backlog_exit ''c2'' = Some exit_event \<and>
   pastEvents (snd (Restore world_empty_reply ''c2'' [] client_backlog_exit)) ''c2'' = None \<and>
   trace (snd (Restore world_empty_reply ''c2'' [] client_backlog_exit)) =
     [RpcState ''c2'', Lock ''c2'',
      StateChanged ''c2'' \<lparr>State = StateExit, Pid = 0, ExitCode = 7\<rparr>, Unlock ''c2''] \<and>
   fst (getContainerdContainer world_empty_reply ''c3'' client_backlog_exit)
     = Inl InvalidStateResponse \<and>
   pastEvents client_backlog_exit ''c3'' = None \<and>
   trace (snd (Restore world_empty_reply ''c3'' [] client_backlog_exit)) =
     [RpcState ''c3'', Lock ''c3'',
      StateChanged ''c3'' \<lparr>State = StateExit, Pid = 0, ExitCode = 0\<rparr>, Unlock ''c3''] \<and>
   pastEvents (snd (Restore world_empty_reply ''c3'' [] client_backlog_exit)) ''c2''
     = Some exit_event"
proof -
  have c2: "fst (getContainerdContainer world_empty_reply ''c2'' client_backlog_exit)
              = Inl InvalidStateResponse"
    by (simp add: getContainerdContainer_def example_worlds)
  have c3: "fst (getContainerdContainer world_empty_reply ''c3'' client_backlog_exit)
              = Inl InvalidStateResponse"
    by (simp add: getContainerdContainer_def example_worlds)
  have backlog: "pastEvents client_backlog_exit ''c2'' = Some exit_event"
                "pastEvents client_backlog_exit ''c3'' = None"
                "trace client_backlog_exit = []"
    by (simp_all add: example_clients)
  have status: "Event_Status exit_event = 7"
    by (simp add: exit_event_def)
  from Restore_not_found_exit [OF c2, of "[]"] Restore_not_found_exit [OF c3, of "[]"]
       c2 c3 backlog status
  show ?thesis by simp
qed

text \<open>
  C9. Whenever the State RPC fails, or answers with a reply that holds no container of
  the requested ID, \<open>Restore\<close> takes the not-found branch: nothing of \<open>restore\<close> runs, the
  registry is unchanged, and one Exit notification is sent for the ID.
\<close>

theorem Restore_any_lookup_error_exits:
  assumes "(\<exists>e. api_State w cid = Inl e) \<or>
           (\<exists>conts. api_State w cid = Inr conts \<and> (\<forall>k \<in> set conts. Id k \<noteq> cid))"
  shows "\<exists>code. trace (snd (Restore w cid opts c)) =
                  trace c @ [RpcState cid, Lock cid,
                             StateChanged cid \<lparr>State = StateExit, Pid = 0, ExitCode = code\<rparr>,
                             Unlock cid] \<and>
                containers (snd (Restore w cid opts c)) = containers c \<and>
                fst (Restore w cid opts c) =
                  backend_StateChanged w cid \<lparr>State = StateExit, Pid = 0, ExitCode = code\<rparr>"
proof -
  from assms obtain e where "fst (getContainerdContainer w cid c) = Inl e"
    by (auto simp: getContainerdContainer_def find_container_none)
  then show ?thesis
    by (simp add: Restore_lookup_failed)
qed

theorem Restore_any_lookup_error_exits_witness:
  "api_State world_no_daemon ''c2'' = Inl (Upstream ''rpc'') \<and>
   trace (snd (Restore world_no_daemon ''c2'' [] client_backlog_exit)) =
     [RpcState ''c2'', Lock ''c2'',
      StateChanged ''c2'' \<lparr>State = StateExit, Pid = 0, ExitCode = 7\<rparr>, Unlock ''c2''] \<and>
   api_State world_empty_reply ''c1'' = Inr [] \<and>
   (\<exists>code. trace (snd (Restore world_empty_reply ''c1'' [] client_live)) =
              [RpcState ''c1'', Lock ''c1'',
               StateChanged ''c1'' \<lparr>State = StateExit, Pid = 0, ExitCode = code\<rparr>,
               Unlock ''c1''] \<and>
            containers (snd (Restore world_empty_reply ''c1'' [] client_live))
              = containers client_live)"
proof -
  have down: "(\<exists>e. api_State world_no_daemon ''c2'' = Inl e) \<or>
              (\<exists>conts. api_State world_no_daemon ''c2'' = Inr conts \<and>
                       (\<forall>k \<in> set conts. Id k \<noteq> ''c2''))"
    by (simp add: example_worlds)
  have empty: "(\<exists>e. api_State world_empty_reply ''c1'' = Inl e) \<or>
               (\<exists>conts. api_State world_empty_reply ''c1'' = Inr conts \<and>
                        (\<forall>k \<in> set conts. Id k \<noteq> ''c1''))"
    by (simp add: example_worlds)
  have tr: "trace (snd (Restore world_no_daemon ''c2'' [] client_backlog_exit)) =
     [RpcState ''c2'', Lock ''c2'',
      StateChanged ''c2'' \<lparr>State = StateExit, Pid = 0, ExitCode = 7\<rparr>, Unlock ''c2'']"
    using Restore_any_lookup_error_exits [OF down, of "[]" client_backlog_exit]
    by (simp add: example_clients Restore_def getContainerdContainer_def client_ops Let_def
        example_worlds)
  have "trace client_live = []"
    by (simp add: example_clients)
  with Restore_any_lookup_error_exits [OF empty, of "[]" client_live] tr
  show ?thesis by (simp add: example_worlds)
qed

end
